theory Spec2Isabelle
  imports Complex_Main "HOL-Library.Multiset"
begin

section \<open>Data model\<close>

text \<open>
  The scoring and optimization modules work on JavaScript numbers. They are modelled as
  exact real numbers: the rounding of IEEE doubles and the infinities are outside the
  model. Identifiers (UUIDs, ObjectIds) are strings.

  One input of the scoring module is optional in the schema: \<open>previousScore?: number\<close>
  of a skill-evolution record. Where it is absent, \<open>newScore - previousScore\<close> is NaN,
  and NaN goes through the sum, the average, \<open>Math.max\<close>, \<open>Math.min\<close> and the weighted
  composite. The values this reaches (the progression score and the total score) have
  the type \<open>number\<close>, a real or NaN; every other number of the model is a real.
\<close>

datatype number = Num real | NaN

text \<open>\<^verbatim>\<open>export enum SkillLevel { LOW = 'LOW', MEDIUM = 'MEDIUM', HIGH = 'HIGH', EXPERT = 'EXPERT' }\<close>\<close>

datatype SkillLevel = LOW | MEDIUM | HIGH | EXPERT

datatype ActivityType = TRAINING | CERTIFICATION | PROJECT | MISSION | AUDIT

text \<open>An employee's skill record (EmployeeSkill): skillId, level, score.\<close>

record EmployeeSkill =
  es_skillId :: string
  es_level :: SkillLevel
  es_score :: real

text \<open>A requirement of an activity (ActivitySkill): skillId, requiredLevel, weight,
  isMandatory, minScore (nullable).\<close>

record ActivitySkill =
  rs_skillId :: string
  requiredLevel :: SkillLevel
  weight :: real
  isMandatory :: bool
  minScore :: "real option"

text \<open>A skill-evolution record: \<open>previousScore?: number\<close> (optional) and
  \<open>newScore: number\<close> (required).\<close>

record SkillEvolution =
  previousScore :: "real option"
  newScore :: real

text \<open>The argument \<open>employee.experience\<close> of \<open>calculateExperienceScore\<close>: it is read
  through \<open>yearsOfExperience\<close> and \<open>history\<close>. The type of the history is left open.\<close>

record 'h Experience =
  yearsOfExperience :: real
  history :: 'h

record 'h Employee =
  skills :: "EmployeeSkill list"
  experience :: "'h Experience"
  skillEvolution :: "SkillEvolution list"
  level :: SkillLevel

record Activity =
  requiredSkills :: "ActivitySkill list"
  activityType :: ActivityType
  targetLevel :: SkillLevel
  availableSeats :: int
  filledSeats :: int

record ScoreBreakdown =
  skillScore :: real
  experienceScore :: real
  progressionScore :: number
  contextScore :: real

record ScoreResult =
  totalScore :: number
  breakdown :: ScoreBreakdown

section \<open>Scoring module\<close>

subsection \<open>Level match\<close>

text \<open>\<^verbatim>\<open>const levelMap = { LOW: 1, MEDIUM: 2, HIGH: 3, EXPERT: 4 }\<close>\<close>

fun levelMap :: "SkillLevel \<Rightarrow> real" where
  "levelMap LOW = 1"
| "levelMap MEDIUM = 2"
| "levelMap HIGH = 3"
| "levelMap EXPERT = 4"

definition calculateLevelMatch :: "SkillLevel \<Rightarrow> SkillLevel \<Rightarrow> real" where
  "calculateLevelMatch employeeLevel reqLevel =
     (let empLevel = levelMap employeeLevel;
          reqLevel' = levelMap reqLevel
      in if empLevel \<ge> reqLevel' then 1.0 else empLevel / reqLevel' * 0.7)"

subsection \<open>Skill match\<close>

text \<open>
  The loop of \<open>calculateSkillMatch\<close> with its two accumulators. The early
  \<open>return 0 // Disqualified\<close> is the value \<open>None\<close>; a loop that runs to its end gives
  \<open>Some (totalWeight, weightedScore)\<close>. As in the source, \<open>totalWeight\<close> is increased
  before the employee's skill is looked up.
\<close>

fun skillMatchLoop ::
  "EmployeeSkill list \<Rightarrow> ActivitySkill list \<Rightarrow> real \<Rightarrow> real \<Rightarrow> (real \<times> real) option" where
  "skillMatchLoop employeeSkills [] totalWeight weightedScore = Some (totalWeight, weightedScore)"
| "skillMatchLoop employeeSkills (required # rest) totalWeight weightedScore =
     (let totalWeight' = totalWeight + weight required in
      case find (\<lambda>s. es_skillId s = rs_skillId required) employeeSkills of
        None \<Rightarrow>
          if isMandatory required then None
          else skillMatchLoop employeeSkills rest totalWeight' weightedScore
      | Some employeeSkill \<Rightarrow>
          (let levelScore = calculateLevelMatch (es_level employeeSkill) (requiredLevel required)
           in skillMatchLoop employeeSkills rest totalWeight'
                (weightedScore + levelScore * weight required)))"

definition calculateSkillMatch :: "EmployeeSkill list \<Rightarrow> ActivitySkill list \<Rightarrow> real" where
  "calculateSkillMatch employeeSkills reqSkills =
     (case skillMatchLoop employeeSkills reqSkills 0 0 of
        None \<Rightarrow> 0
      | Some (totalWeight, weightedScore) \<Rightarrow>
          if totalWeight > 0 then (weightedScore / totalWeight) * 100 else 0)"

text \<open>The skill-match step disqualifies an employee when the loop takes the early return.\<close>

definition disqualified :: "EmployeeSkill list \<Rightarrow> ActivitySkill list \<Rightarrow> bool" where
  "disqualified employeeSkills reqSkills =
     (skillMatchLoop employeeSkills reqSkills 0 0 = None)"

subsection \<open>Experience\<close>

definition baseScore :: "real \<Rightarrow> real" where
  "baseScore totalExperience = min (totalExperience * 5) 50"

definition relevantBonus :: "real \<Rightarrow> real" where
  "relevantBonus relevantExperience = min (relevantExperience * 10) 50"

text \<open>
  \<open>calculateRelevantExperience\<close> is called but defined nowhere in the sources; it is the
  parameter \<open>calculateRelevantExperience\<close> of the model.
\<close>

definition calculateExperienceScore ::
  "('h \<Rightarrow> ActivityType \<Rightarrow> real) \<Rightarrow> 'h Experience \<Rightarrow> ActivityType \<Rightarrow> real" where
  "calculateExperienceScore calculateRelevantExperience employee actType =
     (let totalExperience = yearsOfExperience employee;
          relevantExperience = calculateRelevantExperience (history employee) actType
      in min (baseScore totalExperience + relevantBonus relevantExperience) 100)"

subsection \<open>Progression potential\<close>

text \<open>\<open>skillEvolution.slice(-5)\<close>: the last five entries, or all of them when there are fewer.\<close>

definition lastFive :: "'a list \<Rightarrow> 'a list" where
  "lastFive xs = drop (length xs - 5) xs"

text \<open>Arithmetic on a \<open>number\<close>: a sum with NaN is NaN, and so is a function of NaN.\<close>

fun numAdd :: "number \<Rightarrow> number \<Rightarrow> number" where
  "numAdd (Num a) (Num b) = Num (a + b)"
| "numAdd (Num a) NaN = NaN"
| "numAdd NaN b = NaN"

fun numMap :: "(real \<Rightarrow> real) \<Rightarrow> number \<Rightarrow> number" where
  "numMap f (Num a) = Num (f a)"
| "numMap f NaN = NaN"

text \<open>\<open>evolution.newScore - evolution.previousScore\<close>, NaN when \<open>previousScore\<close> is
  absent.\<close>

definition improvement :: "SkillEvolution \<Rightarrow> number" where
  "improvement evolution =
     (case previousScore evolution of
        None \<Rightarrow> NaN
      | Some previous \<Rightarrow> Num (newScore evolution - previous))"

definition calculateProgressionPotential :: "SkillEvolution list \<Rightarrow> number" where
  "calculateProgressionPotential evolution =
     (if length evolution = 0 then Num 50
      else
        (let recentEvolutions = lastFive evolution;
             totalImprovement =
               foldl (\<lambda>total e. numAdd total (improvement e)) (Num 0) recentEvolutions;
             avgImprovement =
               numMap (\<lambda>total. total / real (length recentEvolutions)) totalImprovement
         in numMap (\<lambda>avg. min (max (50 + avg * 2) 0) 100) avgImprovement))"

subsection \<open>Contextual fit\<close>

definition calculateContextualFit :: "SkillLevel \<Rightarrow> SkillLevel \<Rightarrow> real" where
  "calculateContextualFit target employeeLevel =
     (let t = levelMap target;
          e = levelMap employeeLevel
      in if t = e then 100
         else if \<bar>t - e\<bar> = 1 then 80
         else if \<bar>t - e\<bar> = 2 then 50
         else 20)"

subsection \<open>Composite score\<close>

definition calculateEmployeeScore ::
  "('h \<Rightarrow> ActivityType \<Rightarrow> real) \<Rightarrow> 'h Employee \<Rightarrow> Activity \<Rightarrow> ScoreResult" where
  "calculateEmployeeScore calculateRelevantExperience employee activity =
     (let skillScore' = calculateSkillMatch (skills employee) (requiredSkills activity);
          experienceScore' =
            calculateExperienceScore calculateRelevantExperience
              (experience employee) (activityType activity);
          progressionScore' = calculateProgressionPotential (skillEvolution employee);
          contextScore' = calculateContextualFit (targetLevel activity) (level employee);
          finalScore =
            numAdd (numAdd (Num ((skillScore' * 0.5) + (experienceScore' * 0.2)))
                           (numMap (\<lambda>p. p * 0.15) progressionScore'))
                   (Num (contextScore' * 0.15))
      in \<lparr> totalScore = finalScore,
           breakdown = \<lparr> skillScore = skillScore',
                         experienceScore = experienceScore',
                         progressionScore = progressionScore',
                         contextScore = contextScore' \<rparr> \<rparr>)"

section \<open>Optimization module\<close>

subsection \<open>Seat constraint\<close>

text \<open>
  \<open>Array.prototype.slice(start, end)\<close> on integer arguments: a negative index counts from
  the end of the array, and both indices are clamped to the array.
\<close>

definition slice :: "'a list \<Rightarrow> int \<Rightarrow> int \<Rightarrow> 'a list" where
  "slice xs start end' =
     (let len = int (length xs);
          k = (if start < 0 then max (len + start) 0 else min start len);
          final = (if end' < 0 then max (len + end') 0 else min end' len)
      in take (nat (final - k)) (drop (nat k) xs))"

definition SeatConstraint_validate :: "'c list \<Rightarrow> Activity \<Rightarrow> bool" where
  "SeatConstraint_validate selection activity =
     (int (length selection) \<le> availableSeats activity)"

definition SeatConstraint_apply :: "'c list \<Rightarrow> Activity \<Rightarrow> 'c list" where
  "SeatConstraint_apply candidates activity = slice candidates 0 (availableSeats activity)"

subsection \<open>Mandatory skill constraint\<close>

text \<open>
  \<open>SkillLevel\<close> is a string enum, so \<open>employeeSkill.level < required.requiredLevel\<close>
  compares the two strings, code unit by code unit.
\<close>

fun SkillLevel_value :: "SkillLevel \<Rightarrow> string" where
  "SkillLevel_value LOW = ''LOW''"
| "SkillLevel_value MEDIUM = ''MEDIUM''"
| "SkillLevel_value HIGH = ''HIGH''"
| "SkillLevel_value EXPERT = ''EXPERT''"

fun stringLess :: "string \<Rightarrow> string \<Rightarrow> bool" where
  "stringLess [] [] = False"
| "stringLess [] (y # ys) = True"
| "stringLess (x # xs) [] = False"
| "stringLess (x # xs) (y # ys) =
     (if (of_char x :: nat) < of_char y then True
      else if (of_char y :: nat) < of_char x then False
      else stringLess xs ys)"

definition levelLess :: "SkillLevel \<Rightarrow> SkillLevel \<Rightarrow> bool" where
  "levelLess a b = stringLess (SkillLevel_value a) (SkillLevel_value b)"

fun validateLoop :: "EmployeeSkill list \<Rightarrow> ActivitySkill list \<Rightarrow> bool" where
  "validateLoop employeeSkills [] = True"
| "validateLoop employeeSkills (required # rest) =
     (case find (\<lambda>s. es_skillId s = rs_skillId required) employeeSkills of
        None \<Rightarrow> False
      | Some employeeSkill \<Rightarrow>
          if levelLess (es_level employeeSkill) (requiredLevel required) then False
          else validateLoop employeeSkills rest)"

definition MandatorySkillConstraint_validate :: "'h Employee \<Rightarrow> Activity \<Rightarrow> bool" where
  "MandatorySkillConstraint_validate employee activity =
     (let mandatorySkills = filter isMandatory (requiredSkills activity)
      in validateLoop (skills employee) mandatorySkills)"

subsection \<open>Tie-breaking\<close>






subsection \<open>Multi-objective optimization\<close>

record 'e FrontEntry =
  employee :: 'e
  scores :: "real list"

text \<open>
  Modelled from the spec: \<open>isDominated\<close> is called by \<open>multiObjectiveOptimize\<close> but
  defined nowhere in the sources. "Candidate A dominates B iff A \<open>\<ge>\<close> B on every objective
  and A \<open>>\<close> B on at least one"; a score vector is dominated by a front when some entry
  of the front dominates it.
\<close>

definition dominates :: "real list \<Rightarrow> real list \<Rightarrow> bool" where
  "dominates a b =
     (list_all (\<lambda>(x, y). x \<ge> y) (zip a b) \<and> list_ex (\<lambda>(x, y). x > y) (zip a b))"

definition isDominated :: "real list \<Rightarrow> 'e FrontEntry list \<Rightarrow> bool" where
  "isDominated sc paretoFront = list_ex (\<lambda>entry. dominates (scores entry) sc) paretoFront"

fun paretoLoop ::
  "'a \<Rightarrow> ('e \<Rightarrow> 'a \<Rightarrow> real) list \<Rightarrow> 'e list \<Rightarrow> 'e FrontEntry list \<Rightarrow> 'e FrontEntry list" where
  "paretoLoop activity objectives [] paretoFront = paretoFront"
| "paretoLoop activity objectives (emp # rest) paretoFront =
     (let sc = map (\<lambda>obj. obj emp activity) objectives in
      if isDominated sc paretoFront
        then paretoLoop activity objectives rest paretoFront
        else paretoLoop activity objectives rest
               (paretoFront @ [\<lparr> employee = emp, scores = sc \<rparr>]))"

definition multiObjectiveOptimize ::
  "'e list \<Rightarrow> 'a \<Rightarrow> ('e \<Rightarrow> 'a \<Rightarrow> real) list \<Rightarrow> 'e FrontEntry list" where
  "multiObjectiveOptimize employees activity objectives =
     paretoLoop activity objectives employees []"

section \<open>Vocabulary of the properties\<close>

text \<open>
  An employee has a required skill when the lookup of the source,
  \<open>employeeSkills.find(s => s.skillId === required.skillId)\<close>, finds a record; an employee
  lacks a mandatory skill when some requirement is marked mandatory and the lookup finds
  nothing.
\<close>

definition hasSkill :: "EmployeeSkill list \<Rightarrow> string \<Rightarrow> bool" where
  "hasSkill employeeSkills sid = (find (\<lambda>s. es_skillId s = sid) employeeSkills \<noteq> None)"

definition missingMandatory :: "EmployeeSkill list \<Rightarrow> ActivitySkill list \<Rightarrow> bool" where
  "missingMandatory employeeSkills reqSkills =
     list_ex (\<lambda>r. isMandatory r \<and> \<not> hasSkill employeeSkills (rs_skillId r)) reqSkills"

text \<open>
  The formula the specification gives for the skill sub-score,
  \<open>100 * \<Sum>(levelScore\<cdot>w) / \<Sum>(w)\<close> with the weight of every skill the employee lacks left
  out of both sums, and 0 when no weight remains. It is written from the specification,
  to be compared with \<open>calculateSkillMatch\<close>.
\<close>

definition specSkillScore :: "EmployeeSkill list \<Rightarrow> ActivitySkill list \<Rightarrow> real" where
  "specSkillScore employeeSkills reqSkills =
     (let present = filter (\<lambda>r. hasSkill employeeSkills (rs_skillId r)) reqSkills;
          sumW = sum_list (map weight present);
          sumLW = sum_list (map (\<lambda>r.
                    case find (\<lambda>s. es_skillId s = rs_skillId r) employeeSkills of
                      None \<Rightarrow> 0
                    | Some s \<Rightarrow> calculateLevelMatch (es_level s) (requiredLevel r) * weight r)
                  present)
      in if sumW > 0 then 100 * sumLW / sumW else 0)"

section \<open>Example inputs\<close>

text \<open>
  The end-to-end example of the specification: the activity requires skill A (mandatory,
  HIGH, weight 0.6) and skill B (optional, MEDIUM, weight 0.4) with target level HIGH; the
  employee has A at EXPERT, B at LOW, five years of experience, no history and no skill
  evolution, and the overall level EXPERT.
\<close>

definition requirementA :: ActivitySkill where
  "requirementA = \<lparr> rs_skillId = ''A'', requiredLevel = HIGH, weight = 0.6,
                    isMandatory = True, minScore = None \<rparr>"

definition requirementB :: ActivitySkill where
  "requirementB = \<lparr> rs_skillId = ''B'', requiredLevel = MEDIUM, weight = 0.4,
                    isMandatory = False, minScore = None \<rparr>"

definition exampleActivity :: Activity where
  "exampleActivity = \<lparr> requiredSkills = [requirementA, requirementB],
                       activityType = TRAINING, targetLevel = HIGH,
                       availableSeats = 10, filledSeats = 0 \<rparr>"

definition exampleEmployee :: "unit Employee" where
  "exampleEmployee =
     \<lparr> skills = [\<lparr> es_skillId = ''A'', es_level = EXPERT, es_score = 90 \<rparr>,
                 \<lparr> es_skillId = ''B'', es_level = LOW, es_score = 20 \<rparr>],
       experience = \<lparr> yearsOfExperience = 5, history = () \<rparr>,
       skillEvolution = [],
       level = EXPERT \<rparr>"

text \<open>The same employee without skill A, with skill A held at LOW only, and with
  skill A held at HIGH only.\<close>

definition employeeWithoutA :: "unit Employee" where
  "employeeWithoutA =
     exampleEmployee \<lparr> skills := [\<lparr> es_skillId = ''B'', es_level = LOW, es_score = 20 \<rparr>] \<rparr>"

definition employeeLowA :: "unit Employee" where
  "employeeLowA =
     exampleEmployee \<lparr> skills := [\<lparr> es_skillId = ''A'', es_level = LOW, es_score = 20 \<rparr>] \<rparr>"

definition employeeHighA :: "unit Employee" where
  "employeeHighA =
     exampleEmployee \<lparr> skills := [\<lparr> es_skillId = ''A'', es_level = HIGH, es_score = 60 \<rparr>] \<rparr>"



definition employeeWithoutPreviousScore :: "unit Employee" where
  "employeeWithoutPreviousScore =
     exampleEmployee \<lparr> skillEvolution := [\<lparr> previousScore = None, newScore = 50 \<rparr>] \<rparr>"

text \<open>An activity whose only requirement is skill A, mandatory, at MEDIUM.\<close>

definition activityMediumA :: Activity where
  "activityMediumA =
     \<lparr> requiredSkills = [\<lparr> rs_skillId = ''A'', requiredLevel = MEDIUM, weight = 1,
                           isMandatory = True, minScore = None \<rparr>],
       activityType = TRAINING, targetLevel = MEDIUM,
       availableSeats = 10, filledSeats = 0 \<rparr>"

text \<open>A helper \<open>calculateRelevantExperience\<close> for an employee without history.\<close>

definition noHistory :: "unit \<Rightarrow> ActivityType \<Rightarrow> real" where
  "noHistory h ty = 0"

text \<open>An activity with two optional requirements of weight 0.5 each, and an employee
  who has the first of them at the required level and lacks the second.\<close>

definition optionalActivitySkills :: "ActivitySkill list" where
  "optionalActivitySkills =
     [\<lparr> rs_skillId = ''A'', requiredLevel = HIGH, weight = 0.5,
        isMandatory = False, minScore = None \<rparr>,
      \<lparr> rs_skillId = ''B'', requiredLevel = MEDIUM, weight = 0.5,
        isMandatory = False, minScore = None \<rparr>]"

definition onlySkillA :: "EmployeeSkill list" where
  "onlySkillA = [\<lparr> es_skillId = ''A'', es_level = HIGH, es_score = 60 \<rparr>]"

text \<open>Two optional requirements, the second with a negative weight.\<close>

definition negativeWeightSkills :: "ActivitySkill list" where
  "negativeWeightSkills =
     [\<lparr> rs_skillId = ''A'', requiredLevel = HIGH, weight = 1,
        isMandatory = False, minScore = None \<rparr>,
      \<lparr> rs_skillId = ''B'', requiredLevel = MEDIUM, weight = - 0.5,
        isMandatory = False, minScore = None \<rparr>]"

text \<open>An activity with two seats of which one is filled.\<close>

definition twoSeatsOneFilled :: Activity where
  "twoSeatsOneFilled = \<lparr> requiredSkills = [], activityType = TRAINING, targetLevel = LOW,
                         availableSeats = 2, filledSeats = 1 \<rparr>"



section \<open>The skill-match loop\<close>

lemma skillMatchLoop_None_iff:
  "skillMatchLoop es rs tw ws = None \<longleftrightarrow> missingMandatory es rs"
  by (induction rs arbitrary: tw ws)
     (auto simp: Let_def missingMandatory_def hasSkill_def split: option.splits)

lemma skillMatchLoop_Some:
  "\<not> missingMandatory es rs \<Longrightarrow>
   skillMatchLoop es rs tw ws =
     Some (tw + sum_list (map weight rs),
           ws + sum_list (map (\<lambda>r.
                  case find (\<lambda>s. es_skillId s = rs_skillId r) es of
                    None \<Rightarrow> 0
                  | Some s \<Rightarrow> calculateLevelMatch (es_level s) (requiredLevel r) * weight r) rs))"
  by (induction rs arbitrary: tw ws)
     (auto simp: Let_def missingMandatory_def hasSkill_def split: option.splits)


section \<open>Missing mandatory skill\<close>

text \<open>On a missing mandatory skill the skill-match step returns 0.\<close>

lemma calculateSkillMatch_missing_mandatory:
  assumes "missingMandatory es rs"
  shows "calculateSkillMatch es rs = 0"
proof -
  from assms have "skillMatchLoop es rs 0 0 = None"
    by (simp add: skillMatchLoop_None_iff)
  then show ?thesis by (simp add: calculateSkillMatch_def)
qed

text \<open>
  C1. If the employee lacks a skill that the activity marks mandatory, the total score
  should be 0, the disqualification overriding the weighted composite. The code does not
  do this: \<open>calculateSkillMatch\<close> takes its \<open>return 0 // Disqualified\<close>, and
  \<open>calculateEmployeeScore\<close> then weighs this 0 like any other skill score. The example
  employee without the mandatory skill A (five years of experience, no skill evolution,
  level EXPERT against target HIGH) gets the skill score 0 and the total score
  \<open>0 * 0.5 + 25 * 0.2 + 50 * 0.15 + 80 * 0.15 = 24.5\<close>.
\<close>

theorem C1_disqualified_total_not_zero:
  "missingMandatory (skills employeeWithoutA) (requiredSkills exampleActivity)
   \<and> skillScore (breakdown (calculateEmployeeScore noHistory employeeWithoutA exampleActivity)) = 0
   \<and> totalScore (calculateEmployeeScore noHistory employeeWithoutA exampleActivity) = Num 24.5"
  by (simp add: missingMandatory_def hasSkill_def employeeWithoutA_def exampleEmployee_def
        exampleActivity_def requirementA_def requirementB_def noHistory_def
        calculateEmployeeScore_def calculateSkillMatch_def calculateExperienceScore_def
        baseScore_def relevantBonus_def calculateProgressionPotential_def
        calculateContextualFit_def Let_def)

section \<open>The skill sub-score\<close>

text \<open>
  C2 (as amended). For every employee and activity with no missing mandatory skill, the
  skill sub-score is \<open>100 * \<Sum>(levelScore\<cdot>w) / \<Sum>(w)\<close> where the numerator ranges over the
  required skills the employee has and the denominator over all required skills: an
  optional skill the employee lacks adds nothing to the numerator and keeps its weight in
  the denominator. The result is 0 when the total weight is not positive.
\<close>

theorem C2_skill_score_formula:
  assumes "\<not> missingMandatory es rs"
  shows "calculateSkillMatch es rs =
     (let totalWeight = sum_list (map weight rs);
          weightedScore = sum_list (map (\<lambda>r.
              case find (\<lambda>s. es_skillId s = rs_skillId r) es of
                None \<Rightarrow> 0
              | Some s \<Rightarrow> calculateLevelMatch (es_level s) (requiredLevel r) * weight r) rs)
      in if totalWeight > 0 then 100 * weightedScore / totalWeight else 0)"
  using skillMatchLoop_Some [OF assms, of 0 0]
  by (simp add: calculateSkillMatch_def Let_def)

theorem C2_skill_score_formula_witness:
  "\<not> missingMandatory onlySkillA optionalActivitySkills
   \<and> calculateSkillMatch onlySkillA optionalActivitySkills = 100 * (1 * 0.5 + 0) / (0.5 + 0.5)"
proof -
  have h: "\<not> missingMandatory onlySkillA optionalActivitySkills"
    by (simp add: missingMandatory_def optionalActivitySkills_def)
  from h C2_skill_score_formula [OF h] show ?thesis
    by (simp add: onlySkillA_def optionalActivitySkills_def calculateLevelMatch_def Let_def)
qed

text \<open>
  The claim as stated fails: with two optional requirements of weight 0.5 and an employee
  who meets the first and lacks the second, the code returns \<open>100 * 0.5 / 1.0 = 50\<close>,
  while the formula that leaves the missing skill's weight out of the denominator gives
  \<open>100 * 0.5 / 0.5 = 100\<close>.
\<close>

theorem C2_missing_optional_weight_counterexample:
  "\<not> missingMandatory onlySkillA optionalActivitySkills
   \<and> calculateSkillMatch onlySkillA optionalActivitySkills = 50
   \<and> specSkillScore onlySkillA optionalActivitySkills = 100"
  by (simp add: missingMandatory_def hasSkill_def onlySkillA_def optionalActivitySkills_def
        calculateSkillMatch_def specSkillScore_def calculateLevelMatch_def Let_def)

section \<open>The Pareto front\<close>

text \<open>The loop only appends: an entry that has entered the front is never removed.\<close>

lemma paretoLoop_extends: "\<exists>ys. paretoLoop a objs es front = front @ ys"
proof (induction es arbitrary: front)
  case Nil
  then show ?case by simp
next
  case (Cons e es)
  show ?case
  proof (cases "isDominated (map (\<lambda>obj. obj e a) objs) front")
    case True
    with Cons.IH [of front] show ?thesis by simp
  next
    case False
    from Cons.IH [of "front @ [\<lparr> employee = e, scores = map (\<lambda>obj. obj e a) objs \<rparr>]"]
    obtain ys where
      "paretoLoop a objs es (front @ [\<lparr> employee = e, scores = map (\<lambda>obj. obj e a) objs \<rparr>])
        = (front @ [\<lparr> employee = e, scores = map (\<lambda>obj. obj e a) objs \<rparr>]) @ ys"
      by blast
    with False show ?thesis by simp
  qed
qed

text \<open>
  C3. The returned front should hold no member dominated by a candidate of the input.
  The code does not do this: with one objective and two employees scoring 1 and 2, in
  this order, the first employee enters the empty front, the second is not dominated by
  it and enters too, and the first stays in the front although the second dominates it.
\<close>

theorem C3_front_keeps_dominated_member:
  "multiObjectiveOptimize [(''e1'', 1), (''e2'', 2)] () [\<lambda>e a. snd e]
     = [\<lparr> employee = (''e1'', 1), scores = [1] \<rparr>, \<lparr> employee = (''e2'', 2), scores = [2] \<rparr>]
   \<and> dominates [2] [1]"
  by (simp add: multiObjectiveOptimize_def isDominated_def dominates_def)

section \<open>The seat constraint\<close>

lemma slice_from_zero: "0 \<le> n \<Longrightarrow> slice xs 0 n = take (nat n) xs"
  by (simp add: slice_def Let_def min_def)

text \<open>
  C4 (as amended). For every activity with \<open>availableSeats \<ge> 0\<close>, whatever
  \<open>filledSeats\<close> is, the seat constraint keeps the first \<open>availableSeats\<close> candidates:
  the selected set has length at most \<open>availableSeats\<close> and passes
  \<open>SeatConstraint.validate\<close>. The filled seats are not subtracted.
\<close>

theorem C4_selection_at_most_available_seats:
  assumes "0 \<le> availableSeats a"
  shows "SeatConstraint_apply cs a = take (nat (availableSeats a)) cs
       \<and> int (length (SeatConstraint_apply cs a)) \<le> availableSeats a
       \<and> SeatConstraint_validate (SeatConstraint_apply cs a) a"
  using assms
  by (simp add: SeatConstraint_apply_def SeatConstraint_validate_def slice_from_zero)

theorem C4_selection_witness:
  "0 \<le> availableSeats twoSeatsOneFilled
   \<and> SeatConstraint_apply [''e1'', ''e2'', ''e3''] twoSeatsOneFilled = [''e1'', ''e2'']"
proof -
  have h: "0 \<le> availableSeats twoSeatsOneFilled" by (simp add: twoSeatsOneFilled_def)
  from h C4_selection_at_most_available_seats [OF h, of "[''e1'', ''e2'', ''e3'']"]
  show ?thesis by (simp add: twoSeatsOneFilled_def)
qed

text \<open>
  The claim as stated fails: with two seats of which one is filled, two candidates are
  selected, more than the one seat that \<open>availableSeats - filledSeats\<close> leaves.
\<close>

theorem C4_filled_seats_ignored_counterexample:
  "int (length (SeatConstraint_apply [''e1'', ''e2''] twoSeatsOneFilled)) = 2
   \<and> availableSeats twoSeatsOneFilled - filledSeats twoSeatsOneFilled = 1"
  by (simp add: SeatConstraint_apply_def slice_def twoSeatsOneFilled_def)

section \<open>Tie-breaking\<close>













section \<open>The mandatory skill constraint\<close>

lemma validateLoop_iff:
  "validateLoop es rs \<longleftrightarrow>
     list_all (\<lambda>r. case find (\<lambda>s. es_skillId s = rs_skillId r) es of
                      None \<Rightarrow> False
                    | Some s \<Rightarrow> \<not> levelLess (es_level s) (requiredLevel r)) rs"
  by (induction rs) (auto split: option.splits)

text \<open>
  C6 (as amended). If the MandatorySkillConstraint passes an employee, then the skill-match
  step of the ScoreCalculator does not disqualify that employee. The converse does not
  hold: besides the absence of a mandatory skill, the constraint also rejects an employee
  who holds a mandatory skill when its check of the level against the required level
  fails, while the skill-match step keeps such an employee with partial credit.
\<close>

theorem C6_constraint_pass_implies_not_disqualified:
  assumes "MandatorySkillConstraint_validate e a"
  shows "\<not> disqualified (skills e) (requiredSkills a)"
  using assms
  unfolding MandatorySkillConstraint_validate_def Let_def validateLoop_iff disqualified_def
    skillMatchLoop_None_iff missingMandatory_def hasSkill_def list_all_iff list_ex_iff
  by (auto split: option.splits)

theorem C6_constraint_pass_witness:
  "MandatorySkillConstraint_validate employeeHighA exampleActivity
   \<and> \<not> disqualified (skills employeeHighA) (requiredSkills exampleActivity)"
proof -
  have h: "MandatorySkillConstraint_validate employeeHighA exampleActivity"
    by (simp add: MandatorySkillConstraint_validate_def employeeHighA_def exampleEmployee_def
          exampleActivity_def requirementA_def requirementB_def levelLess_def)
  from h C6_constraint_pass_implies_not_disqualified [OF h] show ?thesis by simp
qed

text \<open>
  The claim as stated fails: the employee who holds the mandatory skill A at LOW, where
  MEDIUM is required, is rejected by the constraint and is not disqualified by the
  skill-match step.
\<close>

theorem C6_low_level_counterexample:
  "\<not> MandatorySkillConstraint_validate employeeLowA activityMediumA
   \<and> \<not> disqualified (skills employeeLowA) (requiredSkills activityMediumA)"
  by (simp add: MandatorySkillConstraint_validate_def employeeLowA_def exampleEmployee_def
        activityMediumA_def disqualified_def levelLess_def)

section \<open>The end-to-end example\<close>

text \<open>
  C7. The activity requires skill A (mandatory, HIGH, weight 0.6) and skill B (optional,
  MEDIUM, weight 0.4) with target level HIGH; the employee has A at EXPERT, B at LOW, five
  years of experience, no skill evolution and the overall level EXPERT, and the helper
  finds no relevant experience in the employee's history. Then the skill score is 74, the
  experience score 25, the progression score 50, the context score 80 and the total score
  61.5, whatever the fields that the example leaves open (numeric skill scores, minimum
  scores, activity type, seats) are.
\<close>

theorem C7_end_to_end_example:
  assumes "rel h ty = 0"
  shows "calculateEmployeeScore rel
       \<lparr> skills = [\<lparr> es_skillId = ''A'', es_level = EXPERT, es_score = sA \<rparr>,
                   \<lparr> es_skillId = ''B'', es_level = LOW, es_score = sB \<rparr>],
         experience = \<lparr> yearsOfExperience = 5, history = h \<rparr>,
         skillEvolution = [],
         level = EXPERT \<rparr>
       \<lparr> requiredSkills =
           [\<lparr> rs_skillId = ''A'', requiredLevel = HIGH, weight = 0.6,
              isMandatory = True, minScore = mA \<rparr>,
            \<lparr> rs_skillId = ''B'', requiredLevel = MEDIUM, weight = 0.4,
              isMandatory = False, minScore = mB \<rparr>],
         activityType = ty, targetLevel = HIGH, availableSeats = n, filledSeats = k \<rparr>
     = \<lparr> totalScore = Num 61.5,
         breakdown = \<lparr> skillScore = 74, experienceScore = 25,
                       progressionScore = Num 50, contextScore = 80 \<rparr> \<rparr>"
  using assms
  by (simp add: calculateEmployeeScore_def calculateSkillMatch_def calculateLevelMatch_def
        calculateExperienceScore_def baseScore_def relevantBonus_def
        calculateProgressionPotential_def calculateContextualFit_def Let_def)

theorem C7_end_to_end_example_witness:
  "noHistory () TRAINING = 0
   \<and> calculateEmployeeScore noHistory exampleEmployee exampleActivity
     = \<lparr> totalScore = Num 61.5,
         breakdown = \<lparr> skillScore = 74, experienceScore = 25,
                       progressionScore = Num 50, contextScore = 80 \<rparr> \<rparr>"
proof -
  have h: "noHistory () TRAINING = 0" by (simp add: noHistory_def)
  from h C7_end_to_end_example
         [where rel = noHistory and h = "()" and ty = TRAINING and sA = 90 and sB = 20
            and mA = None and mB = None and n = 10 and k = 0]
  show ?thesis
    by (simp add: exampleEmployee_def exampleActivity_def requirementA_def requirementB_def)
qed

section \<open>Bounds of the scores\<close>











text \<open>
  The other two conditions are needed as well: a negative weight takes the skill score
  above 100, and one skill-evolution record without \<open>previousScore\<close> makes the
  progression score and the total score NaN.
\<close>

lemma negative_weight_skill_score:
  "calculateSkillMatch onlySkillA negativeWeightSkills = 200"
  by (simp add: calculateSkillMatch_def onlySkillA_def negativeWeightSkills_def
        calculateLevelMatch_def Let_def)

lemma missing_previousScore_NaN:
  "progressionScore (breakdown
     (calculateEmployeeScore noHistory employeeWithoutPreviousScore exampleActivity)) = NaN
   \<and> totalScore (calculateEmployeeScore noHistory employeeWithoutPreviousScore exampleActivity)
     = NaN"
  by (simp add: calculateEmployeeScore_def calculateProgressionPotential_def improvement_def
        lastFive_def employeeWithoutPreviousScore_def exampleEmployee_def Let_def)

section \<open>Independence of the numeric score fields\<close>

lemma find_level_proj:
  "map (\<lambda>s. (es_skillId s, es_level s)) es1 = map (\<lambda>s. (es_skillId s, es_level s)) es2 \<Longrightarrow>
   map_option es_level (find (\<lambda>s. es_skillId s = k) es1)
     = map_option es_level (find (\<lambda>s. es_skillId s = k) es2)"
  by (induction es1 arbitrary: es2) auto

lemma skillMatchLoop_proj:
  assumes "map (\<lambda>s. (es_skillId s, es_level s)) es1 = map (\<lambda>s. (es_skillId s, es_level s)) es2"
  shows "map (\<lambda>r. (rs_skillId r, requiredLevel r, weight r, isMandatory r)) rs1
           = map (\<lambda>r. (rs_skillId r, requiredLevel r, weight r, isMandatory r)) rs2 \<Longrightarrow>
         skillMatchLoop es1 rs1 tw ws = skillMatchLoop es2 rs2 tw ws"
proof (induction rs1 arbitrary: rs2 tw ws)
  case Nil
  then show ?case by simp
next
  case (Cons r rs1)
  then obtain r' rs2' where rs2: "rs2 = r' # rs2'" by auto
  with Cons.prems have eq: "rs_skillId r = rs_skillId r'" "requiredLevel r = requiredLevel r'"
    "weight r = weight r'" "isMandatory r = isMandatory r'"
    and rest: "map (\<lambda>r. (rs_skillId r, requiredLevel r, weight r, isMandatory r)) rs1
           = map (\<lambda>r. (rs_skillId r, requiredLevel r, weight r, isMandatory r)) rs2'"
    by auto
  have f: "map_option es_level (find (\<lambda>s. es_skillId s = rs_skillId r') es1)
     = map_option es_level (find (\<lambda>s. es_skillId s = rs_skillId r') es2)"
    using assms by (rule find_level_proj)
  show ?case
    using f Cons.IH [OF rest] eq rs2
    by (auto simp: Let_def split: option.splits)
qed

text \<open>
  C9. The skill sub-score depends only on which skills the employee has and on their
  levels: when two lists of employee skills agree, entry by entry, on \<open>skillId\<close> and
  \<open>level\<close> (the numeric \<open>score\<close> fields are arbitrary), and two lists of requirements
  agree on everything but \<open>minScore\<close>, \<open>calculateSkillMatch\<close> returns the same result.
\<close>

theorem C9_skill_match_ignores_scores:
  assumes "map (\<lambda>s. (es_skillId s, es_level s)) es1 = map (\<lambda>s. (es_skillId s, es_level s)) es2"
    and "map (\<lambda>r. (rs_skillId r, requiredLevel r, weight r, isMandatory r)) rs1
           = map (\<lambda>r. (rs_skillId r, requiredLevel r, weight r, isMandatory r)) rs2"
  shows "calculateSkillMatch es1 rs1 = calculateSkillMatch es2 rs2"
  using skillMatchLoop_proj [OF assms, of 0 0]
  by (simp add: calculateSkillMatch_def)

theorem C9_skill_match_ignores_scores_witness:
  "calculateSkillMatch
      [\<lparr> es_skillId = ''A'', es_level = EXPERT, es_score = 90 \<rparr>,
       \<lparr> es_skillId = ''B'', es_level = LOW, es_score = 20 \<rparr>]
      [requirementA, requirementB]
   = calculateSkillMatch
      [\<lparr> es_skillId = ''A'', es_level = EXPERT, es_score = 0 \<rparr>,
       \<lparr> es_skillId = ''B'', es_level = LOW, es_score = 100 \<rparr>]
      [requirementA \<lparr> minScore := Some 95 \<rparr>, requirementB \<lparr> minScore := Some 50 \<rparr>]"
  by (rule C9_skill_match_ignores_scores) simp_all

section \<open>Properties of the experience score\<close>

lemma baseScore_mono: "y1 \<le> y2 \<Longrightarrow> baseScore y1 \<le> baseScore y2"
  by (simp add: baseScore_def min_def)

lemma relevantBonus_mono: "r1 \<le> r2 \<Longrightarrow> relevantBonus r1 \<le> relevantBonus r2"
  by (simp add: relevantBonus_def min_def)

text \<open>
  C10. The experience score is nondecreasing in the years of experience (relevant
  experience fixed) and in the relevant experience returned by the helper (years fixed);
  the base contribution is at most 50, the relevant bonus is at most 50 and the score is
  at most 100.
\<close>

theorem C10_experience_monotone_capped:
  "(y1 \<le> y2 \<longrightarrow>
      calculateExperienceScore rel \<lparr> yearsOfExperience = y1, history = h \<rparr> ty
      \<le> calculateExperienceScore rel \<lparr> yearsOfExperience = y2, history = h \<rparr> ty)
   \<and> (rel1 h ty \<le> rel2 h ty \<longrightarrow>
      calculateExperienceScore rel1 \<lparr> yearsOfExperience = y, history = h \<rparr> ty
      \<le> calculateExperienceScore rel2 \<lparr> yearsOfExperience = y, history = h \<rparr> ty)
   \<and> baseScore y \<le> 50
   \<and> relevantBonus r \<le> 50
   \<and> calculateExperienceScore rel e ty \<le> 100"
proof -
  have m1: "y1 \<le> y2 \<longrightarrow>
      calculateExperienceScore rel \<lparr> yearsOfExperience = y1, history = h \<rparr> ty
      \<le> calculateExperienceScore rel \<lparr> yearsOfExperience = y2, history = h \<rparr> ty"
  proof
    assume "y1 \<le> y2"
    then have "baseScore y1 \<le> baseScore y2" by (rule baseScore_mono)
    then show "calculateExperienceScore rel \<lparr> yearsOfExperience = y1, history = h \<rparr> ty
      \<le> calculateExperienceScore rel \<lparr> yearsOfExperience = y2, history = h \<rparr> ty"
      by (simp add: calculateExperienceScore_def Let_def min_def)
  qed
  have m2: "rel1 h ty \<le> rel2 h ty \<longrightarrow>
      calculateExperienceScore rel1 \<lparr> yearsOfExperience = y, history = h \<rparr> ty
      \<le> calculateExperienceScore rel2 \<lparr> yearsOfExperience = y, history = h \<rparr> ty"
  proof
    assume "rel1 h ty \<le> rel2 h ty"
    then have "relevantBonus (rel1 h ty) \<le> relevantBonus (rel2 h ty)"
      by (rule relevantBonus_mono)
    then show "calculateExperienceScore rel1 \<lparr> yearsOfExperience = y, history = h \<rparr> ty
      \<le> calculateExperienceScore rel2 \<lparr> yearsOfExperience = y, history = h \<rparr> ty"
      by (simp add: calculateExperienceScore_def Let_def min_def)
  qed
  have b: "baseScore y \<le> 50" by (simp add: baseScore_def)
  have r: "relevantBonus r \<le> 50" by (simp add: relevantBonus_def)
  have c: "calculateExperienceScore rel e ty \<le> 100"
    by (simp add: calculateExperienceScore_def Let_def)
  from m1 m2 b r c show ?thesis by blast
qed

theorem C10_experience_monotone_capped_witness:
  "((2::real) \<le> 4 \<and>
      calculateExperienceScore (\<lambda>h ty. real (length h))
        \<lparr> yearsOfExperience = 2, history = [TRAINING] \<rparr> TRAINING
      \<le> calculateExperienceScore (\<lambda>h ty. real (length h))
        \<lparr> yearsOfExperience = 4, history = [TRAINING] \<rparr> TRAINING)
   \<and> ((0::real) \<le> 1 \<and>
      calculateExperienceScore (\<lambda>h ty. 0)
        \<lparr> yearsOfExperience = 3, history = [TRAINING] \<rparr> TRAINING
      \<le> calculateExperienceScore (\<lambda>h ty. real (length h))
        \<lparr> yearsOfExperience = 3, history = [TRAINING] \<rparr> TRAINING)"
  using C10_experience_monotone_capped
          [of 2 4 "\<lambda>h ty. real (length h)" "[TRAINING]" TRAINING
              "\<lambda>h ty. 0" "\<lambda>h ty. real (length h)" 3]
  by simp

end
